theory Spec2Isabelle
  imports Main "HOL-Library.Word"
begin

unbundle bit_operations_syntax

section \<open>Data model of the Diameter capture decoder (main.go)\<close>

type_synonym u8 = "8 word"
type_synonym u32 = "32 word"
type_synonym u64 = "64 word"

text \<open>
  Go's \<open>datatype.Type\<close> interface, restricted to the dynamic types that
  \<open>avpToJSONValue\<close> distinguishes. The byte-backed types carry their bytes, the numeric
  ones their bit pattern (the signed and the floating-point reading is left to the consumer).
  \<open>OtherType\<close> stands for every datatype of the codec that the type switch does not
  list; its payload is the raw body. Among them is \<open>*diam.GroupedAVP\<close>, the value that
  the decoder of go-diameter stores in \<open>AVP.Data\<close> for an attribute that the dictionary
  declares grouped: it is not a \<open>datatype.Grouped\<close>.
\<close>

datatype datatype_Type =
    UTF8String string
  | DiameterIdentity string
  | OctetString "u8 list"
  | Address "u8 list"
  | Integer32 u32
  | Unsigned32 u32
  | Integer64 u64
  | Unsigned64 u64
  | Float32 u32
  | Float64 u64
  | IPv4 "u8 list"
  | IPv6 "u8 list"
  | Grouped "u8 list"
  | OtherType "u8 list"

text \<open>\<open>diam.AVP\<close>, \<open>diam.Header\<close>, \<open>diam.Message\<close> and \<open>diam.GroupedAVP\<close>: the fields the program reads.\<close>

record AVP =
  avp_Code :: u32
  avp_VendorID :: u32
  avp_Data :: datatype_Type

record Header =
  hdr_CommandCode :: u32
  hdr_CommandFlags :: u8
  hdr_ApplicationID :: u32
  hdr_HopByHopID :: u32
  hdr_EndToEndID :: u32

record Message =
  msg_Header :: Header
  msg_AVP :: "AVP list"

record GroupedAVP =
  ga_AVP :: "AVP list"

text \<open>The dictionary entry returned by \<open>FindAVPWithVendor\<close>; only \<open>Name\<close> is read.\<close>

record dict_AVP =
  def_Name :: string

text \<open>The output structures of main.go.\<close>

record PLMN =
  MCC :: string
  MNC :: string
  Hex :: string

text \<open>
  \<open>AVPInfo.Data\<close> has Go type \<open>interface{}\<close>. Its dynamic values are the results of
  \<open>avpToJSONValue\<close>, a \<open>GroupedData\<close> or a \<open>*PLMN\<close>.
\<close>

datatype AVPInfo =
    AVPInfo (Code: u32) (VendorID: u32) (Name: string) (Data: go_value)
and go_value =
    go_string string
  | go_bytes "u8 list"
  | go_int32 u32
  | go_uint32 u32
  | go_int64 u64
  | go_uint64 u64
  | go_float32 u32
  | go_float64 u64
  | GroupedData (gd_AVPs: "AVPInfo list")
  | go_PLMN PLMN

record MessageInfo =
  CommandCode :: u32
  CommandCodeName :: string
  CommandFlags :: u8
  CommandFlagsName :: string
  ApplicationID :: u32
  ApplicationName :: string
  HopByHopID :: u32
  EndToEndID :: u32
  AVPs :: "AVPInfo list"

text \<open>A captured packet: \<open>packet.ApplicationLayer()\<close> is nil or carries a payload.\<close>

record Packet =
  ApplicationLayer :: "u8 list option"

section \<open>The libraries the program calls\<close>

text \<open>
  A Go call returning \<open>(p, err)\<close> is modelled as a pair of options: \<open>p\<close> is nil or a
  value, \<open>err\<close> is nil or an error text. The dictionary \<open>*dict.Parser\<close> is used through
  \<open>FindAVPWithVendor\<close> only and is modelled as that method.
\<close>

type_synonym error = string
type_synonym dict_Parser = "u32 \<Rightarrow> int \<Rightarrow> u32 \<Rightarrow> dict_AVP option \<times> error option"

text \<open>
  The functions of go-diameter, gopacket, net and encoding/json that main.go calls are
  parameters of the model: \<open>diam.ReadMessage\<close>, \<open>diam.DecodeGrouped\<close>, the constant
  \<open>dict.UndefinedVendorID\<close>, the dictionary \<open>dict.Default\<close>, the \<open>String\<close> method of the
  address types, \<open>fmt.Sprintf("%v", v)\<close> on a datatype, \<open>json.MarshalIndent\<close> and
  \<open>pcap.OpenOffline\<close> followed by reading all packets of the source.
\<close>

record library =
  ReadMessage :: "u8 list \<Rightarrow> dict_Parser \<Rightarrow> error + Message"
  DecodeGrouped :: "u8 list \<Rightarrow> u32 \<Rightarrow> dict_Parser \<Rightarrow> GroupedAVP option \<times> error option"
  UndefinedVendorID :: u32
  Default :: dict_Parser
  String :: "datatype_Type \<Rightarrow> string"
  Sprintf_v :: "datatype_Type \<Rightarrow> string"
  MarshalIndent :: "MessageInfo \<Rightarrow> string \<times> error option"
  OpenOffline :: "string \<Rightarrow> error + Packet list"

section \<open>Formatting verbs of fmt\<close>

definition digit_char :: "nat \<Rightarrow> char" where
  "digit_char n = ''0123456789abcdef'' ! n"

text \<open>\<open>fmt.Sprintf("%d", v)\<close> for an unsigned value: decimal, no padding.\<close>

fun Sprintf_d :: "nat \<Rightarrow> string" where
  "Sprintf_d n = (if n < 10 then [digit_char n] else Sprintf_d (n div 10) @ [digit_char (n mod 10)])"

declare Sprintf_d.simps [simp del]

text \<open>\<open>fmt.Sprintf("%x", b)\<close> for a byte slice: two lowercase hexadecimal characters per byte.\<close>

fun Sprintf_x :: "u8 list \<Rightarrow> string" where
  "Sprintf_x [] = []"
| "Sprintf_x (c # cs) = digit_char (unat c div 16) # digit_char (unat c mod 16) # Sprintf_x cs"

section \<open>The functions of main.go\<close>

definition avpNameFromDict :: "library \<Rightarrow> dict_Parser \<Rightarrow> u32 \<Rightarrow> u32 \<Rightarrow> u32 \<Rightarrow> string" where
  "avpNameFromDict lib d appID code vendorID =
     (let v = (if vendorID = 0 then UndefinedVendorID lib else vendorID) in
      case d appID (uint code) v of
        (Some avpDef, None) \<Rightarrow> def_Name avpDef
      | _ \<Rightarrow>
        (case d 0 (uint code) v of
           (Some avpDef, None) \<Rightarrow> def_Name avpDef
         | _ \<Rightarrow> ''''))"

fun avpToJSONValue :: "library \<Rightarrow> datatype_Type \<Rightarrow> go_value" where
  "avpToJSONValue lib (UTF8String x) = go_string x"
| "avpToJSONValue lib (DiameterIdentity x) = go_string x"
| "avpToJSONValue lib (OctetString x) = go_bytes x"
| "avpToJSONValue lib (Address x) = go_string (String lib (Address x))"
| "avpToJSONValue lib (Integer32 x) = go_int32 x"
| "avpToJSONValue lib (Unsigned32 x) = go_uint32 x"
| "avpToJSONValue lib (Integer64 x) = go_int64 x"
| "avpToJSONValue lib (Unsigned64 x) = go_uint64 x"
| "avpToJSONValue lib (Float32 x) = go_float32 x"
| "avpToJSONValue lib (Float64 x) = go_float64 x"
| "avpToJSONValue lib (IPv4 x) = go_string (String lib (IPv4 x))"
| "avpToJSONValue lib (IPv6 x) = go_string (String lib (IPv6 x))"
| "avpToJSONValue lib (Grouped x) = go_string (Sprintf_x x)"
| "avpToJSONValue lib (OtherType x) = go_string (Sprintf_v lib (OtherType x))"

definition commandCodeName :: "u32 \<Rightarrow> string" where
  "commandCodeName code =
     (if code = 316 then ''Update-Location (ULR/ULA)''
      else if code = 317 then ''Cancel-Location (CLR/CLA)''
      else if code = 318 then ''Authentication-Information (AIR/AIA)''
      else if code = 319 then ''Insert-Subscriber-Data (IDR/IDA)''
      else '''')"

definition applicationName :: "u32 \<Rightarrow> string" where
  "applicationName id' =
     (if id' = 0 then ''Diameter Base''
      else if id' = 16777251 then ''S6a/S6d''
      else '''')"

text \<open>\<open>commandFlagsName\<close>: the string \<open>s\<close> is threaded through the four tests as in the source.\<close>

definition commandFlagsName :: "u8 \<Rightarrow> string" where
  "commandFlagsName f =
     (let s = '''';
          s = (if f AND 0x80 \<noteq> 0 then s @ ''R'' else s);
          s = (if f AND 0x40 \<noteq> 0 then (if s \<noteq> '''' then s @ ''|'' else s) @ ''P'' else s);
          s = (if f AND 0x20 \<noteq> 0 then (if s \<noteq> '''' then s @ ''|'' else s) @ ''E'' else s);
          s = (if f AND 0x10 \<noteq> 0 then (if s \<noteq> '''' then s @ ''|'' else s) @ ''T'' else s)
      in s)"

text \<open>\<open>decodePLMN\<close>: nil for fewer than three bytes, so the reads of \<open>b[0..2]\<close> are in range.\<close>

definition decodePLMN :: "u8 list \<Rightarrow> PLMN option" where
  "decodePLMN b =
     (if length b < 3 then None
      else
        let mccDigit1 = (b ! 0) AND 0x0F;
            mccDigit2 = drop_bit 4 ((b ! 0) AND 0xF0);
            mccDigit3 = (b ! 1) AND 0x0F;
            mncDigit3 = drop_bit 4 ((b ! 1) AND 0xF0);
            mncDigit1 = (b ! 2) AND 0x0F;
            mncDigit2 = drop_bit 4 ((b ! 2) AND 0xF0);
            mcc = Sprintf_d (unat mccDigit1) @ Sprintf_d (unat mccDigit2) @ Sprintf_d (unat mccDigit3);
            mnc = (if mncDigit3 = 0xF
                   then Sprintf_d (unat mncDigit1) @ Sprintf_d (unat mncDigit2)
                   else Sprintf_d (unat mncDigit1) @ Sprintf_d (unat mncDigit2) @ Sprintf_d (unat mncDigit3))
        in Some \<lparr>MCC = mcc, MNC = mnc, Hex = Sprintf_x b\<rparr>)"

text \<open>
  \<open>avpsToInfoList\<close>: the loop appends one \<open>AVPInfo\<close> per element to \<open>out\<close>. The
  type assertion on \<open>a.Data\<close> is the case distinction on the constructor.
\<close>

definition childInfo :: "library \<Rightarrow> dict_Parser \<Rightarrow> u32 \<Rightarrow> AVP \<Rightarrow> AVPInfo" where
  "childInfo lib d appID a =
     (let name = avpNameFromDict lib d appID (avp_Code a) (avp_VendorID a);
          data = avpToJSONValue lib (avp_Data a);
          data = (if name = ''Visited-PLMN-Id''
                  then (case avp_Data a of
                          OctetString os \<Rightarrow>
                            (case decodePLMN os of Some plmn \<Rightarrow> go_PLMN plmn | None \<Rightarrow> data)
                        | _ \<Rightarrow> data)
                  else data)
      in AVPInfo (avp_Code a) (avp_VendorID a) name data)"

fun avpsToInfoList_loop :: "library \<Rightarrow> dict_Parser \<Rightarrow> u32 \<Rightarrow> AVP list \<Rightarrow> AVPInfo list \<Rightarrow> AVPInfo list" where
  "avpsToInfoList_loop lib d appID [] out = out"
| "avpsToInfoList_loop lib d appID (a # avps) out =
     avpsToInfoList_loop lib d appID avps (out @ [childInfo lib d appID a])"

definition avpsToInfoList :: "library \<Rightarrow> dict_Parser \<Rightarrow> u32 \<Rightarrow> AVP list \<Rightarrow> AVPInfo list" where
  "avpsToInfoList lib d appID avps = avpsToInfoList_loop lib d appID avps []"

text \<open>
  The body of the loop over \<open>msg.AVP\<close> in \<open>main\<close> (lines 93 to 123): the grouped branch
  first, the \<open>Visited-PLMN-Id\<close> branch only for a value that is not \<open>Grouped\<close>.
\<close>

definition messageAVPInfo :: "library \<Rightarrow> dict_Parser \<Rightarrow> u32 \<Rightarrow> AVP \<Rightarrow> AVPInfo" where
  "messageAVPInfo lib d appID a =
     (let name = avpNameFromDict lib d appID (avp_Code a) (avp_VendorID a);
          data = avpToJSONValue lib (avp_Data a);
          data = (case avp_Data a of
                    Grouped g \<Rightarrow>
                      (case DecodeGrouped lib g appID d of
                         (Some ga, None) \<Rightarrow> GroupedData (avpsToInfoList lib d appID (ga_AVP ga))
                       | _ \<Rightarrow> data)
                  | OctetString os \<Rightarrow>
                      (if name = ''Visited-PLMN-Id''
                       then (case decodePLMN os of Some plmn \<Rightarrow> go_PLMN plmn | None \<Rightarrow> data)
                       else data)
                  | _ \<Rightarrow> data)
      in AVPInfo (avp_Code a) (avp_VendorID a) name data)"

fun messageAVPs_loop :: "library \<Rightarrow> dict_Parser \<Rightarrow> u32 \<Rightarrow> AVP list \<Rightarrow> MessageInfo \<Rightarrow> MessageInfo" where
  "messageAVPs_loop lib d appID [] mi = mi"
| "messageAVPs_loop lib d appID (a # avps) mi =
     messageAVPs_loop lib d appID avps (mi\<lparr>AVPs := AVPs mi @ [messageAVPInfo lib d appID a]\<rparr>)"

definition messageInfo :: "library \<Rightarrow> dict_Parser \<Rightarrow> Message \<Rightarrow> MessageInfo" where
  "messageInfo lib d msg =
     (let h = msg_Header msg;
          mi = \<lparr>CommandCode = hdr_CommandCode h,
                CommandCodeName = commandCodeName (hdr_CommandCode h),
                CommandFlags = hdr_CommandFlags h,
                CommandFlagsName = commandFlagsName (hdr_CommandFlags h),
                ApplicationID = hdr_ApplicationID h,
                ApplicationName = applicationName (hdr_ApplicationID h),
                HopByHopID = hdr_HopByHopID h,
                EndToEndID = hdr_EndToEndID h,
                AVPs = []\<rparr>
      in messageAVPs_loop lib d (hdr_ApplicationID h) (msg_AVP msg) mi)"

text \<open>
  What the process writes: the lines of \<open>fmt.Println\<close> and the messages of
  \<open>log.Println\<close> (without the time stamp that package log puts in front).
\<close>

record written =
  stdout :: "string list"
  logged :: "string list"

text \<open>
  The loop over the packets of the source (lines 64 to 132). Each \<open>continue\<close> is a
  recursive call on the remaining packets with the output unchanged.
\<close>

fun packetLoop :: "library \<Rightarrow> dict_Parser \<Rightarrow> Packet list \<Rightarrow> written \<Rightarrow> written" where
  "packetLoop lib d [] w = w"
| "packetLoop lib d (packet # rest) w =
     (case ApplicationLayer packet of
        None \<Rightarrow> packetLoop lib d rest w
      | Some payload \<Rightarrow>
          if length payload = 0 then packetLoop lib d rest w
          else
            (case ReadMessage lib payload d of
               Inl err \<Rightarrow> packetLoop lib d rest w
             | Inr msg \<Rightarrow>
                 (case MarshalIndent lib (messageInfo lib d msg) of
                    (out, Some err) \<Rightarrow>
                      packetLoop lib d rest (w\<lparr>logged := logged w @ [''json marshal error: '' @ err]\<rparr>)
                  | (out, None) \<Rightarrow>
                      packetLoop lib d rest (w\<lparr>stdout := stdout w @ [out]\<rparr>))))"

text \<open>\<open>main\<close>: \<open>log.Fatal\<close> ends the process with its message (\<open>Inl\<close>).\<close>

definition main :: "library \<Rightarrow> string \<Rightarrow> error + written" where
  "main lib pcapFile =
     (if pcapFile = '''' then Inl ''Please provide a PCAP file using -pcap''
      else
        let d = Default lib in
        case OpenOffline lib pcapFile of
          Inl err \<Rightarrow> Inl (''Failed to open PCAP file:'' @ err)
        | Inr packets \<Rightarrow> Inr (packetLoop lib d packets \<lparr>stdout = [], logged = []\<rparr>))"

section \<open>Definitions used to state the properties\<close>

text \<open>
  The second identifier as the specification words it: the filler case takes the two
  nibbles of byte 2 (low, then high), the other case the high nibble of byte 1 followed by
  the low and the high nibble of byte 2. It is compared with what \<open>decodePLMN\<close> returns.
\<close>

definition spec_second_identifier :: "u8 list \<Rightarrow> string" where
  "spec_second_identifier b =
     (if unat (b ! 1) div 16 = 15
      then [digit_char (unat (b ! 2) mod 16), digit_char (unat (b ! 2) div 16)]
      else [digit_char (unat (b ! 1) div 16), digit_char (unat (b ! 2) mod 16),
            digit_char (unat (b ! 2) div 16)])"

text \<open>
  The flags string as the specification words it: the tokens of the bits that are set, in
  the order R, P, E, T, joined by the pipe character.
\<close>

definition spec_flag_tokens :: "u8 \<Rightarrow> string list" where
  "spec_flag_tokens f =
     map snd (filter (\<lambda>(m, t). f AND m \<noteq> 0)
       [(0x80, ''R''), (0x40, ''P''), (0x20, ''E''), (0x10, ''T'')])"

fun pipe_join :: "string list \<Rightarrow> string" where
  "pipe_join [] = []"
| "pipe_join [t] = t"
| "pipe_join (t # ts) = t @ ''|'' @ pipe_join ts"

text \<open>
  A lookup hits when \<open>FindAVPWithVendor\<close> returns no error and a definition, the test
  \<open>err == nil && avpDef != nil\<close> of \<open>avpNameFromDict\<close>.
\<close>

definition lookup_hit :: "dict_AVP option \<times> error option \<Rightarrow> bool" where
  "lookup_hit r = (snd r = None \<and> fst r \<noteq> None)"

text \<open>
  A small dictionary on which the theorems are exercised: Origin-Host in the base
  application, Visited-PLMN-Id of vendor 10415 in the application 16777251.
\<close>

definition example_dict :: dict_Parser where
  "example_dict appID code v =
     (if appID = 0 \<and> code = 264 \<and> v = 0xFFFFFFFF
      then (Some \<lparr>def_Name = ''Origin-Host''\<rparr>, None)
      else if appID = 16777251 \<and> code = 1407 \<and> v = 10415
      then (Some \<lparr>def_Name = ''Visited-PLMN-Id''\<rparr>, None)
      else (None, Some ''Could not find AVP''))"

text \<open>
  A small codec and capture on which the theorems are exercised. The grouped value
  \<open>[7]\<close> decodes to a grouped child with the value \<open>[8]\<close> and a leaf; \<open>[8]\<close> decodes to
  the leaf. The only payload that parses is \<open>[1]\<close>.
\<close>

definition example_leaf :: AVP where
  "example_leaf = \<lparr>avp_Code = 264, avp_VendorID = 0, avp_Data = DiameterIdentity ''hss.example''\<rparr>"

definition example_inner_group :: AVP where
  "example_inner_group = \<lparr>avp_Code = 1430, avp_VendorID = 10415, avp_Data = Grouped [8]\<rparr>"

definition example_group :: AVP where
  "example_group = \<lparr>avp_Code = 1400, avp_VendorID = 10415, avp_Data = Grouped [7]\<rparr>"

definition example_short_plmn :: AVP where
  "example_short_plmn = \<lparr>avp_Code = 1407, avp_VendorID = 10415, avp_Data = OctetString [0x21, 0x43]\<rparr>"

definition example_message :: Message where
  "example_message =
     \<lparr>msg_Header = \<lparr>hdr_CommandCode = 316, hdr_CommandFlags = 0xC0,
                     hdr_ApplicationID = 16777251, hdr_HopByHopID = 1, hdr_EndToEndID = 2\<rparr>,
      msg_AVP = [example_group, example_short_plmn]\<rparr>"

definition example_lib :: library where
  "example_lib =
     \<lparr>ReadMessage = (\<lambda>payload d. if payload = [1] then Inr example_message
                                  else Inl ''not a Diameter message''),
      DecodeGrouped = (\<lambda>g appID d.
         if g = [7] then (Some \<lparr>ga_AVP = [example_inner_group, example_leaf]\<rparr>, None)
         else if g = [8] then (Some \<lparr>ga_AVP = [example_leaf]\<rparr>, None)
         else (None, Some ''decode error'')),
      UndefinedVendorID = 0xFFFFFFFF,
      Default = example_dict,
      String = (\<lambda>t. ''address''),
      Sprintf_v = (\<lambda>t. ''value''),
      MarshalIndent = (\<lambda>mi. (CommandCodeName mi @ '' '' @ CommandFlagsName mi, None)),
      OpenOffline = (\<lambda>file. if file = ''capture.pcap''
                              then Inr [\<lparr>ApplicationLayer = None\<rparr>, \<lparr>ApplicationLayer = Some []\<rparr>,
                                        \<lparr>ApplicationLayer = Some [1]\<rparr>]
                              else Inl ''no such file'')\<rparr>"

text \<open>
  Two grouped attributes as \<open>diam.ReadMessage\<close> delivers them with the base dictionary.
  The first is a Vendor-Specific-Application-Id (code 260) with the children Vendor-Id
  (code 266, value 10415) and Auth-Application-Id (code 258, value 16777251); the second is
  a Failed-AVP (code 279) whose one child is that Vendor-Specific-Application-Id. The data of
  each is a \<open>*diam.GroupedAVP\<close>, here with the bytes of the body.
\<close>

definition delivered_vsai_body :: "u8 list" where
  "delivered_vsai_body =
     [0x00, 0x00, 0x01, 0x0A, 0x40, 0x00, 0x00, 0x0C, 0x00, 0x00, 0x28, 0xAF,
      0x00, 0x00, 0x01, 0x02, 0x40, 0x00, 0x00, 0x0C, 0x01, 0x00, 0x00, 0x23]"

definition delivered_vsai :: AVP where
  "delivered_vsai = \<lparr>avp_Code = 260, avp_VendorID = 0, avp_Data = OtherType delivered_vsai_body\<rparr>"

definition delivered_failed_avp_body :: "u8 list" where
  "delivered_failed_avp_body =
     [0x00, 0x00, 0x01, 0x04, 0x40, 0x00, 0x00, 0x20] @ delivered_vsai_body"

definition delivered_failed_avp :: AVP where
  "delivered_failed_avp =
     \<lparr>avp_Code = 279, avp_VendorID = 0, avp_Data = OtherType delivered_failed_avp_body\<rparr>"

text \<open>
  The capabilities-exchange request (command 257, base application) whose one attribute is
  that Vendor-Specific-Application-Id, as \<open>diam.ReadMessage\<close> returns it.
\<close>

definition delivered_message :: Message where
  "delivered_message =
     \<lparr>msg_Header = \<lparr>hdr_CommandCode = 257, hdr_CommandFlags = 0x80,
                     hdr_ApplicationID = 0, hdr_HopByHopID = 1, hdr_EndToEndID = 2\<rparr>,
      msg_AVP = [delivered_vsai]\<rparr>"

section \<open>Nibbles and decimal rendering\<close>

lemma low_nibble_unat: "unat ((x::u8) AND 0x0F) = unat x mod 16"
proof -
  have "x AND 0x0F = take_bit 4 x" by (simp add: take_bit_eq_mask mask_eq_exp_minus_1)
  then show ?thesis by (simp add: unsigned_take_bit_eq take_bit_eq_mod unat_mod) 
qed

lemma high_nibble_drop: "drop_bit 4 ((x::u8) AND 0xF0) = drop_bit 4 x"
proof -
  have "(0xF0::u8) = push_bit 4 (mask 4)" by (simp add: mask_eq_exp_minus_1)
  then have "drop_bit 4 (x AND 0xF0) = drop_bit 4 x AND drop_bit 4 (push_bit 4 (mask 4 :: u8))"
    by (simp only: drop_bit_and)
  also have "drop_bit 4 (push_bit 4 (mask 4 :: u8)) = mask 4"
    by (simp add: mask_eq_exp_minus_1)
  also have "drop_bit 4 x AND mask 4 = drop_bit 4 x"
    by (rule bit_word_eqI) (auto simp add: bit_simps dest: bit_imp_le_length)
  finally show ?thesis .
qed

lemma high_nibble_unat: "unat (drop_bit 4 ((x::u8) AND 0xF0)) = unat x div 16"
  by (simp only: high_nibble_drop) (simp add: drop_bit_eq_div unat_div)

lemma high_nibble_filler: "(drop_bit 4 ((x::u8) AND 0xF0) = 0xF) = (unat x div 16 = 15)"
proof -
  have "(drop_bit 4 (x AND 0xF0) = 0xF) = (unat (drop_bit 4 (x AND 0xF0)) = unat (0xF :: u8))"
    by (simp only: word_unat_eq_iff)
  then show ?thesis by (simp only: high_nibble_unat) simp
qed

lemma Sprintf_d_digit: "n < 10 \<Longrightarrow> Sprintf_d n = [digit_char n]"
  by (simp add: Sprintf_d.simps)

lemma Sprintf_d_two: "10 \<le> n \<Longrightarrow> n < 100 \<Longrightarrow> Sprintf_d n = [digit_char (n div 10), digit_char (n mod 10)]"
  by (subst Sprintf_d.simps) (simp add: Sprintf_d_digit)

lemma decodePLMN_nibbles:
  assumes "3 \<le> length b"
  shows "decodePLMN b = Some \<lparr>
     MCC = Sprintf_d (unat (b ! 0) mod 16) @ Sprintf_d (unat (b ! 0) div 16) @ Sprintf_d (unat (b ! 1) mod 16),
     MNC = (if unat (b ! 1) div 16 = 15
            then Sprintf_d (unat (b ! 2) mod 16) @ Sprintf_d (unat (b ! 2) div 16)
            else Sprintf_d (unat (b ! 2) mod 16) @ Sprintf_d (unat (b ! 2) div 16) @ Sprintf_d (unat (b ! 1) div 16)),
     Hex = Sprintf_x b\<rparr>"
proof -
  from assms have "\<not> length b < 3" by simp
  then show ?thesis
    by (simp only: decodePLMN_def Let_def low_nibble_unat high_nibble_unat high_nibble_filler if_False)
qed

lemma digit_char_decimal: "n \<le> 9 \<Longrightarrow> digit_char n \<in> set ''0123456789''"
proof -
  assume "n \<le> 9"
  then have "n \<in> {0,1,2,3,4,5,6,7,8,9}" by auto
  then show ?thesis by (auto simp: digit_char_def)
qed

lemma high_nibble_less: "unat (x::u8) div 16 < 16"
proof -
  have "unat x < 2 ^ 8" using unsigned_less [of x] by simp
  then show ?thesis by simp
qed

lemma length_Sprintf_d_nibble: "n < 16 \<Longrightarrow> length (Sprintf_d n) = (if n \<le> 9 then 1 else 2)"
  by (cases "n \<le> 9") (simp_all add: Sprintf_d_digit Sprintf_d_two)

section \<open>The bits of the command flags\<close>

lemma flag_bit:
  "((f::u8) AND 0x80 \<noteq> 0) = bit f 7" "(f AND 0x40 \<noteq> 0) = bit f 6"
  "(f AND 0x20 \<noteq> 0) = bit f 5" "(f AND 0x10 \<noteq> 0) = bit f 4"
proof -
  have e: "(0x80::u8) = 2 ^ 7" "(0x40::u8) = 2 ^ 6" "(0x20::u8) = 2 ^ 5" "(0x10::u8) = 2 ^ 4"
    by simp_all
  show "(f AND 0x80 \<noteq> 0) = bit f 7" "(f AND 0x40 \<noteq> 0) = bit f 6"
    "(f AND 0x20 \<noteq> 0) = bit f 5" "(f AND 0x10 \<noteq> 0) = bit f 4"
    unfolding e by (simp_all only: and_exp_eq_0_iff_not_bit not_not)
qed

lemma flag_mask: "((f::u8) AND 0xF0 = 0) = (\<not> bit f 7 \<and> \<not> bit f 6 \<and> \<not> bit f 5 \<and> \<not> bit f 4)"
proof -
  have "(0xF0::u8) = 0x80 OR 0x40 OR 0x20 OR 0x10" by simp
  then have "f AND 0xF0 = (f AND 0x80) OR (f AND 0x40) OR (f AND 0x20) OR (f AND 0x10)"
    by (simp only: bit.conj_disj_distrib)
  then show ?thesis
    by (simp only: or_eq_0_iff flag_bit [symmetric] not_not)
qed

lemma flag_masked:
  "((f::u8) AND 0xF0) AND 0x80 = f AND 0x80" "(f AND 0xF0) AND 0x40 = f AND 0x40"
  "(f AND 0xF0) AND 0x20 = f AND 0x20" "(f AND 0xF0) AND 0x10 = f AND 0x10"
  by (simp_all add: and.assoc)

text \<open>The list of a message has one entry for each attribute, in order.\<close>

lemma messageAVPs_loop_map:
  "messageAVPs_loop lib d appID avps mi
     = mi\<lparr>AVPs := AVPs mi @ map (messageAVPInfo lib d appID) avps\<rparr>"
  by (induction avps arbitrary: mi) simp_all

lemma messageInfo_AVPs:
  "AVPs (messageInfo lib d msg)
     = map (messageAVPInfo lib d (hdr_ApplicationID (msg_Header msg))) (msg_AVP msg)"
  by (simp add: messageInfo_def Let_def messageAVPs_loop_map)

section \<open>The network-identifier decoder\<close>

text \<open>
  Claim C1, as amended. For every input of at least three bytes whose nibbles are decimal
  digits (at most 9), where the high nibble of byte 1 may also be the filler 15,
  \<open>decodePLMN\<close> returns a record. Its first identifier is the three digits low nibble of
  byte 0, high nibble of byte 0, low nibble of byte 1. Its second identifier is, when the
  high nibble of byte 1 is the filler, the two digits low nibble of byte 2, high nibble of
  byte 2; otherwise the three digits low nibble of byte 2, high nibble of byte 2, high nibble
  of byte 1, in that order. All the characters are decimal digits.
\<close>

theorem decodePLMN_digit_order:
  assumes "3 \<le> length b"
    and "unat (b ! 0) mod 16 \<le> 9" and "unat (b ! 0) div 16 \<le> 9" and "unat (b ! 1) mod 16 \<le> 9"
    and "unat (b ! 2) mod 16 \<le> 9" and "unat (b ! 2) div 16 \<le> 9"
    and "unat (b ! 1) div 16 \<le> 9 \<or> unat (b ! 1) div 16 = 15"
  shows "\<exists>r. decodePLMN b = Some r
     \<and> MCC r = [digit_char (unat (b ! 0) mod 16), digit_char (unat (b ! 0) div 16),
                digit_char (unat (b ! 1) mod 16)]
     \<and> MNC r = (if unat (b ! 1) div 16 = 15
                then [digit_char (unat (b ! 2) mod 16), digit_char (unat (b ! 2) div 16)]
                else [digit_char (unat (b ! 2) mod 16), digit_char (unat (b ! 2) div 16),
                      digit_char (unat (b ! 1) div 16)])
     \<and> set (MCC r @ MNC r) \<subseteq> set ''0123456789''"
proof -
  define l0 where "l0 = unat (b ! 0) mod 16"
  define h0 where "h0 = unat (b ! 0) div 16"
  define l1 where "l1 = unat (b ! 1) mod 16"
  define h1 where "h1 = unat (b ! 1) div 16"
  define l2 where "l2 = unat (b ! 2) mod 16"
  define h2 where "h2 = unat (b ! 2) div 16"
  define D where "D = set ''0123456789''"
  note defs = l0_def h0_def l1_def h1_def l2_def h2_def
  from assms(2-6) have le: "l0 \<le> 9" "h0 \<le> 9" "l1 \<le> 9" "l2 \<le> 9" "h2 \<le> 9"
    by (simp_all only: defs)
  from assms(7) have h1: "h1 \<le> 9 \<or> h1 = 15"
    by (simp only: defs)
  from le have d: "Sprintf_d l0 = [digit_char l0]" "Sprintf_d h0 = [digit_char h0]"
    "Sprintf_d l1 = [digit_char l1]" "Sprintf_d l2 = [digit_char l2]"
    "Sprintf_d h2 = [digit_char h2]"
    by (simp_all add: Sprintf_d_digit)
  from le have dec: "digit_char l0 \<in> D" "digit_char h0 \<in> D" "digit_char l1 \<in> D"
    "digit_char l2 \<in> D" "digit_char h2 \<in> D"
    unfolding D_def by (simp_all only: digit_char_decimal)
  have r: "decodePLMN b = Some \<lparr>
     MCC = Sprintf_d l0 @ Sprintf_d h0 @ Sprintf_d l1,
     MNC = (if h1 = 15 then Sprintf_d l2 @ Sprintf_d h2
            else Sprintf_d l2 @ Sprintf_d h2 @ Sprintf_d h1),
     Hex = Sprintf_x b\<rparr>"
    unfolding defs by (rule decodePLMN_nibbles [OF assms(1)])
  have "\<exists>r. decodePLMN b = Some r
     \<and> MCC r = [digit_char l0, digit_char h0, digit_char l1]
     \<and> MNC r = (if h1 = 15 then [digit_char l2, digit_char h2]
                else [digit_char l2, digit_char h2, digit_char h1])
     \<and> set (MCC r @ MNC r) \<subseteq> D"
  proof (cases "h1 = 15")
    case True
    then show ?thesis using dec by (simp add: r d)
  next
    case False
    with h1 have h1le: "h1 \<le> 9" by simp
    then have s1: "Sprintf_d h1 = [digit_char h1]"
      by (simp add: Sprintf_d_digit)
    from h1le have "digit_char h1 \<in> D"
      unfolding D_def by (rule digit_char_decimal)
    with False s1 show ?thesis using dec by (simp add: r d)
  qed
  then show ?thesis unfolding defs D_def .
qed

text \<open>The theorem at the bytes 0x13 0x00 0x62, the identifiers 310 and 260.\<close>

theorem decodePLMN_digit_order_witness:
  "\<exists>r. decodePLMN [0x13, 0x00, 0x62] = Some r \<and> MCC r = ''310'' \<and> MNC r = ''260''"
  using decodePLMN_digit_order [of "[0x13, 0x00, 0x62]"]
  by (auto simp add: digit_char_def)

text \<open>
  Claim C1 as the specification states it fails: at the bytes 0x13 0x00 0x62 the source
  returns the second identifier 260, the stated order gives 026.
\<close>

theorem decodePLMN_order_counterexample:
  "map_option MNC (decodePLMN [0x13, 0x00, 0x62]) = Some ''260''
   \<and> spec_second_identifier [0x13, 0x00, 0x62] = ''026''"
  by (simp add: decodePLMN_def Sprintf_d.simps digit_char_def spec_second_identifier_def)

text \<open>
  Claim C3, as amended. \<open>decodePLMN\<close> returns the identifiers 124 and 35 (two digits,
  filler in the high nibble of byte 1) for the bytes 0x21 0xF4 0x53, and 124 and 356 for
  the bytes 0x21 0x64 0x53; for the bytes 0x21 0x43 0x65 it returns 123 and 564.
\<close>

theorem decodePLMN_examples:
  "decodePLMN [0x21, 0xF4, 0x53] = Some \<lparr>MCC = ''124'', MNC = ''35'', Hex = ''21f453''\<rparr>
   \<and> decodePLMN [0x21, 0x64, 0x53] = Some \<lparr>MCC = ''124'', MNC = ''356'', Hex = ''216453''\<rparr>
   \<and> decodePLMN [0x21, 0x43, 0x65] = Some \<lparr>MCC = ''123'', MNC = ''564'', Hex = ''214365''\<rparr>"
  by (simp add: decodePLMN_def Sprintf_d.simps digit_char_def)

text \<open>
  Claim C3 as the specification states it fails on both of its inputs: neither identifier
  returned for 0x21 0x43 0xF5 or for 0x21 0x43 0x65 is the stated one.
\<close>

theorem decodePLMN_examples_counterexample:
  "map_option MCC (decodePLMN [0x21, 0x43, 0xF5]) \<noteq> Some ''124''
   \<and> map_option MNC (decodePLMN [0x21, 0x43, 0xF5]) \<noteq> Some ''35''
   \<and> map_option MCC (decodePLMN [0x21, 0x43, 0x65]) \<noteq> Some ''124''
   \<and> map_option MNC (decodePLMN [0x21, 0x43, 0x65]) \<noteq> Some ''356''"
  by (simp add: decodePLMN_def Sprintf_d.simps digit_char_def)

text \<open>
  Claim C9. For an input of at least three bytes in which one of the three nibbles of the
  first identifier is greater than 9, \<open>decodePLMN\<close> still returns a record; each nibble is
  rendered in decimal, with one character when it is at most 9 and two characters
  otherwise, so the first identifier has more than three characters.
\<close>

theorem decodePLMN_nibble_above_9:
  assumes "3 \<le> length b"
    and "9 < unat (b ! 0) mod 16 \<or> 9 < unat (b ! 0) div 16 \<or> 9 < unat (b ! 1) mod 16"
  shows "\<exists>r. decodePLMN b = Some r
     \<and> MCC r = Sprintf_d (unat (b ! 0) mod 16) @ Sprintf_d (unat (b ! 0) div 16)
                @ Sprintf_d (unat (b ! 1) mod 16)
     \<and> length (MCC r) = (if unat (b ! 0) mod 16 \<le> 9 then 1 else 2)
                       + (if unat (b ! 0) div 16 \<le> 9 then 1 else 2)
                       + (if unat (b ! 1) mod 16 \<le> 9 then 1 else 2)
     \<and> 3 < length (MCC r)"
proof -
  define l0 where "l0 = unat (b ! 0) mod 16"
  define h0 where "h0 = unat (b ! 0) div 16"
  define l1 where "l1 = unat (b ! 1) mod 16"
  note defs = l0_def h0_def l1_def
  have lt: "l0 < 16" "h0 < 16" "l1 < 16"
    unfolding defs by (simp_all add: high_nibble_less)
  from assms(2) have above: "9 < l0 \<or> 9 < h0 \<or> 9 < l1"
    by (simp only: defs)
  have len: "length (Sprintf_d l0) = (if l0 \<le> 9 then 1 else 2)"
    "length (Sprintf_d h0) = (if h0 \<le> 9 then 1 else 2)"
    "length (Sprintf_d l1) = (if l1 \<le> 9 then 1 else 2)"
    using lt by (simp_all only: length_Sprintf_d_nibble)
  have "MCC (the (decodePLMN b)) = Sprintf_d l0 @ Sprintf_d h0 @ Sprintf_d l1"
    and some: "decodePLMN b = Some (the (decodePLMN b))"
    unfolding defs by (simp_all add: decodePLMN_nibbles [OF assms(1)])
  moreover from this(1) have "length (MCC (the (decodePLMN b)))
      = (if l0 \<le> 9 then 1 else 2) + (if h0 \<le> 9 then 1 else 2) + (if l1 \<le> 9 then 1 else 2)"
    by (simp add: len)
  moreover from this above have "3 < length (MCC (the (decodePLMN b)))"
    by (auto split: if_splits)
  ultimately have "\<exists>r. decodePLMN b = Some r
     \<and> MCC r = Sprintf_d l0 @ Sprintf_d h0 @ Sprintf_d l1
     \<and> length (MCC r) = (if l0 \<le> 9 then 1 else 2) + (if h0 \<le> 9 then 1 else 2)
                       + (if l1 \<le> 9 then 1 else 2)
     \<and> 3 < length (MCC r)"
    by blast
  then show ?thesis unfolding defs .
qed

text \<open>The theorem at the bytes 0xFF 0xFF 0xFF: each nibble 15 prints as 15.\<close>

theorem decodePLMN_nibble_above_9_witness:
  "\<exists>r. decodePLMN [0xFF, 0xFF, 0xFF] = Some r \<and> MCC r = ''151515'' \<and> length (MCC r) = 6"
  using decodePLMN_nibble_above_9 [of "[0xFF, 0xFF, 0xFF]"]
  by (auto simp add: Sprintf_d.simps digit_char_def)

section \<open>The command flags string\<close>

lemma commandFlagsName_bits:
  "commandFlagsName f =
     (let s = '''';
          s = (if bit f 7 then s @ ''R'' else s);
          s = (if bit f 6 then (if s \<noteq> '''' then s @ ''|'' else s) @ ''P'' else s);
          s = (if bit f 5 then (if s \<noteq> '''' then s @ ''|'' else s) @ ''E'' else s);
          s = (if bit f 4 then (if s \<noteq> '''' then s @ ''|'' else s) @ ''T'' else s)
      in s)"
  by (simp only: commandFlagsName_def flag_bit)

lemma spec_flag_tokens_bits:
  "spec_flag_tokens f =
     (if bit f 7 then [''R''] else []) @ (if bit f 6 then [''P''] else [])
     @ (if bit f 5 then [''E''] else []) @ (if bit f 4 then [''T''] else [])"
proof -
  have "spec_flag_tokens f =
     (if f AND 0x80 \<noteq> 0 then [''R''] else []) @ (if f AND 0x40 \<noteq> 0 then [''P''] else [])
     @ (if f AND 0x20 \<noteq> 0 then [''E''] else []) @ (if f AND 0x10 \<noteq> 0 then [''T''] else [])"
    by (simp add: spec_flag_tokens_def)
  then show ?thesis by (simp only: flag_bit)
qed

lemma commandFlagsName_join: "commandFlagsName f = pipe_join (spec_flag_tokens f)"
  unfolding commandFlagsName_bits spec_flag_tokens_bits
  by (cases "bit f 7"; cases "bit f 6"; cases "bit f 5"; cases "bit f 4") simp_all

lemma commandFlagsName_empty: "(commandFlagsName f = '''') = (f AND 0xF0 = 0)"
  unfolding commandFlagsName_bits flag_mask
  by (cases "bit f 7"; cases "bit f 6"; cases "bit f 5"; cases "bit f 4") simp_all

lemma commandFlagsName_member:
  "(CHR ''R'' \<in> set (commandFlagsName f)) = bit f 7"
  "(CHR ''P'' \<in> set (commandFlagsName f)) = bit f 6"
  "(CHR ''E'' \<in> set (commandFlagsName f)) = bit f 5"
  "(CHR ''T'' \<in> set (commandFlagsName f)) = bit f 4"
  "set (commandFlagsName f) \<subseteq> set ''RPET|''"
  unfolding commandFlagsName_bits
  by (cases "bit f 7"; cases "bit f 6"; cases "bit f 5"; cases "bit f 4"; simp)+

lemma commandFlagsName_masked: "commandFlagsName (f AND 0xF0) = commandFlagsName f"
  by (simp only: commandFlagsName_def flag_masked)

text \<open>
  Claim C5. For every command-flags byte, \<open>commandFlagsName\<close> is the pipe-joined list of
  the tokens R, P, E, T whose bits 0x80, 0x40, 0x20, 0x10 are set, in that order; it is empty
  exactly when none of the four bits is set; each token occurs exactly when its bit is set;
  no other character than the four tokens and the pipe occurs, and the bits outside 0xF0
  do not change the result.
\<close>

theorem commandFlagsName_tokens:
  "commandFlagsName f = pipe_join (spec_flag_tokens f)
   \<and> (commandFlagsName f = '''') = (f AND 0xF0 = 0)
   \<and> (CHR ''R'' \<in> set (commandFlagsName f)) = (f AND 0x80 \<noteq> 0)
   \<and> (CHR ''P'' \<in> set (commandFlagsName f)) = (f AND 0x40 \<noteq> 0)
   \<and> (CHR ''E'' \<in> set (commandFlagsName f)) = (f AND 0x20 \<noteq> 0)
   \<and> (CHR ''T'' \<in> set (commandFlagsName f)) = (f AND 0x10 \<noteq> 0)
   \<and> set (commandFlagsName f) \<subseteq> set ''RPET|''
   \<and> commandFlagsName (f AND 0xF0) = commandFlagsName f"
  by (simp only: flag_bit commandFlagsName_member commandFlagsName_masked
        commandFlagsName_empty commandFlagsName_join [symmetric] simp_thms)

text \<open>The theorem at the bytes 0xC5, 0x0F and 0xFF.\<close>

theorem commandFlagsName_tokens_witness:
  "commandFlagsName 0xC5 = ''R|P'' \<and> commandFlagsName 0x0F = '''' \<and> commandFlagsName 0xFF = ''R|P|E|T''"
  using commandFlagsName_tokens [of "0xC5"] commandFlagsName_tokens [of "0x0F"]
    commandFlagsName_tokens [of "0xFF"]
  by (simp add: spec_flag_tokens_def)

section \<open>The dictionary resolver\<close>

text \<open>
  Claim C4. For a lookup with vendorID 0, \<open>avpNameFromDict\<close> queries the dictionary with
  \<open>dict.UndefinedVendorID\<close>: first for the application of the message, and when that misses
  for the application 0; it returns the name of the first hit and the empty string when
  both miss. The result is a string in every case: no error reaches the caller.
\<close>

theorem avpNameFromDict_no_vendor:
  "avpNameFromDict lib d appID code 0 =
     (if lookup_hit (d appID (uint code) (UndefinedVendorID lib))
      then def_Name (the (fst (d appID (uint code) (UndefinedVendorID lib))))
      else if lookup_hit (d 0 (uint code) (UndefinedVendorID lib))
      then def_Name (the (fst (d 0 (uint code) (UndefinedVendorID lib))))
      else '''')"
  by (cases "d appID (uint code) (UndefinedVendorID lib)";
      cases "d 0 (uint code) (UndefinedVendorID lib)")
     (auto simp add: avpNameFromDict_def lookup_hit_def Let_def split: option.splits)

text \<open>
  The theorem on the example dictionary: code 264 is found in the base application only,
  code 999 nowhere.
\<close>

theorem avpNameFromDict_no_vendor_witness:
  "avpNameFromDict example_lib example_dict 16777251 264 0 = ''Origin-Host''
   \<and> avpNameFromDict example_lib example_dict 16777251 999 0 = ''''"
  using avpNameFromDict_no_vendor [of example_lib example_dict 16777251 264]
    avpNameFromDict_no_vendor [of example_lib example_dict 16777251 999]
  by (simp add: example_lib_def example_dict_def lookup_hit_def)

section \<open>Grouped attributes\<close>

lemma avpsToInfoList_loop_map:
  "avpsToInfoList_loop lib d appID avps out = out @ map (childInfo lib d appID) avps"
  by (induction avps arbitrary: out) simp_all

lemma avpsToInfoList_map: "avpsToInfoList lib d appID avps = map (childInfo lib d appID) avps"
  by (simp add: avpsToInfoList_def avpsToInfoList_loop_map)

text \<open>
  \<open>avpsToInfoList\<close> has no grouped branch: no entry it builds carries a \<open>GroupedData\<close>,
  whatever the data of the child is.
\<close>

lemma childInfo_never_GroupedData: "Data (childInfo lib d appID a) \<noteq> GroupedData xs"
  by (cases "avp_Data a")
     (auto simp add: childInfo_def Let_def split: option.splits)

text \<open>
  The test of the loop of \<open>main\<close> is on \<open>datatype.Grouped\<close>. A value of any type that
  neither this test nor the type switch of \<open>avpToJSONValue\<close> names is printed with \<open>%v\<close>.
\<close>

lemma messageAVPInfo_OtherType:
  "messageAVPInfo lib d appID \<lparr>avp_Code = c, avp_VendorID = v, avp_Data = OtherType t\<rparr>
     = AVPInfo c v (avpNameFromDict lib d appID c v) (go_string (Sprintf_v lib (OtherType t)))"
  by (simp add: messageAVPInfo_def Let_def)

text \<open>
  Claim C6, evaluated. For the message whose one attribute is the
  Vendor-Specific-Application-Id as the codec delivers it, with its two children, the list
  of the message has one entry, and that entry carries no list at all: its data is the one
  string that \<open>%v\<close> gives for the group, for every codec and dictionary.
\<close>

theorem delivered_group_kept_as_text:
  "AVPs (messageInfo lib d delivered_message)
     = [AVPInfo 260 0 (avpNameFromDict lib d 0 260 0)
          (go_string (Sprintf_v lib (OtherType delivered_vsai_body)))]
   \<and> Data (messageAVPInfo lib d appID delivered_vsai) \<noteq> GroupedData xs"
  by (simp add: messageInfo_AVPs delivered_message_def delivered_vsai_def
        messageAVPInfo_OtherType)

text \<open>
  Claim C2, evaluated. For the Failed-AVP as the codec delivers it, whose child is itself
  grouped, the data of the entry is the string that \<open>%v\<close> gives for the outer group: neither
  the group nor its child is expanded. And \<open>avpsToInfoList\<close> expands no child of any list:
  none of its entries carries a \<open>GroupedData\<close>.
\<close>

theorem grouped_children_never_expanded:
  "Data (messageAVPInfo lib d appID delivered_failed_avp)
     = go_string (Sprintf_v lib (OtherType delivered_failed_avp_body))
   \<and> GroupedData xs \<notin> set (map Data (avpsToInfoList lib d appID avps))"
  by (auto simp add: delivered_failed_avp_def messageAVPInfo_OtherType avpsToInfoList_map
        childInfo_never_GroupedData [THEN not_sym])

section \<open>Short network identifiers\<close>

text \<open>
  Claim C7. For an attribute of a message that the dictionary names \<open>Visited-PLMN-Id\<close> and
  whose value is an octet string of fewer than 3 bytes, \<open>decodePLMN\<close> returns nil; the entry
  built for it, by the loop of \<open>main\<close> and by \<open>avpsToInfoList\<close> alike, keeps the value of
  \<open>avpToJSONValue\<close> (the bytes); that entry is in the list of the message, and the list has
  one entry for each attribute of the message.
\<close>

theorem short_plmn_keeps_generic:
  assumes "a \<in> set (msg_AVP msg)"
    and "avp_Data a = OctetString b"
    and "length b < 3"
    and "avpNameFromDict lib d (hdr_ApplicationID (msg_Header msg)) (avp_Code a) (avp_VendorID a)
           = ''Visited-PLMN-Id''"
  shows "decodePLMN b = None
     \<and> messageAVPInfo lib d (hdr_ApplicationID (msg_Header msg)) a
         = AVPInfo (avp_Code a) (avp_VendorID a) ''Visited-PLMN-Id'' (go_bytes b)
     \<and> childInfo lib d (hdr_ApplicationID (msg_Header msg)) a
         = AVPInfo (avp_Code a) (avp_VendorID a) ''Visited-PLMN-Id'' (go_bytes b)
     \<and> AVPInfo (avp_Code a) (avp_VendorID a) ''Visited-PLMN-Id'' (go_bytes b)
         \<in> set (AVPs (messageInfo lib d msg))
     \<and> length (AVPs (messageInfo lib d msg)) = length (msg_AVP msg)"
proof -
  from assms(3) have none: "decodePLMN b = None"
    by (simp add: decodePLMN_def)
  have m: "messageAVPInfo lib d (hdr_ApplicationID (msg_Header msg)) a
         = AVPInfo (avp_Code a) (avp_VendorID a) ''Visited-PLMN-Id'' (go_bytes b)"
    using assms(2,4) none by (simp add: messageAVPInfo_def Let_def)
  have c: "childInfo lib d (hdr_ApplicationID (msg_Header msg)) a
         = AVPInfo (avp_Code a) (avp_VendorID a) ''Visited-PLMN-Id'' (go_bytes b)"
    using assms(2,4) none by (simp add: childInfo_def Let_def)
  from assms(1) m have "AVPInfo (avp_Code a) (avp_VendorID a) ''Visited-PLMN-Id'' (go_bytes b)
         \<in> set (AVPs (messageInfo lib d msg))"
    unfolding messageInfo_AVPs by force
  with none m c show ?thesis by (simp add: messageInfo_AVPs)
qed

text \<open>The theorem on the example message, whose second attribute carries two bytes.\<close>

theorem short_plmn_keeps_generic_witness:
  "decodePLMN [0x21, 0x43] = None
   \<and> AVPInfo 1407 10415 ''Visited-PLMN-Id'' (go_bytes [0x21, 0x43])
       \<in> set (AVPs (messageInfo example_lib example_dict example_message))
   \<and> length (AVPs (messageInfo example_lib example_dict example_message)) = 2"
  using short_plmn_keeps_generic [of example_short_plmn example_message "[0x21, 0x43]"
      example_lib example_dict]
  by (simp add: example_message_def example_short_plmn_def avpNameFromDict_def
        example_dict_def example_lib_def)

section \<open>The packet loop\<close>

text \<open>
  Claim C10. A packet with no application layer, or with an empty payload, leaves the state of
  the loop as it was and the loop goes on with the packets after it; \<open>ReadMessage\<close> plays no
  part (any other \<open>ReadMessage\<close> gives the same step); alone, such a packet prints and logs
  nothing.
\<close>

theorem packetLoop_skips_empty:
  assumes "ApplicationLayer packet = None \<or> ApplicationLayer packet = Some []"
  shows "packetLoop lib d (packet # rest) w = packetLoop lib d rest w
     \<and> packetLoop (lib\<lparr>ReadMessage := r\<rparr>) d (packet # rest) w
         = packetLoop (lib\<lparr>ReadMessage := r\<rparr>) d rest w
     \<and> packetLoop lib d [packet] w = w"
  using assms by auto

text \<open>The theorem on the two empty packets of the example capture.\<close>

theorem packetLoop_skips_empty_witness:
  "packetLoop example_lib example_dict
      [\<lparr>ApplicationLayer = None\<rparr>, \<lparr>ApplicationLayer = Some []\<rparr>]
      \<lparr>stdout = [], logged = []\<rparr> = \<lparr>stdout = [], logged = []\<rparr>"
  using packetLoop_skips_empty [of "\<lparr>ApplicationLayer = None\<rparr>" example_lib example_dict
          "[\<lparr>ApplicationLayer = Some []\<rparr>]" "\<lparr>stdout = [], logged = []\<rparr>"]
    packetLoop_skips_empty [of "\<lparr>ApplicationLayer = Some []\<rparr>" example_lib example_dict
          "[]" "\<lparr>stdout = [], logged = []\<rparr>"]
  by simp

end
